theory Spec2Isabelle
  imports Complex_Main
begin

section \<open>Python values used by the classification cascade\<close>

text \<open>
  The cascade of \<^verbatim>\<open>src/utils/text_preprocessing.py\<close> works on Python strings, lists
  of strings and dictionaries from country names to counts. Strings are modelled as
  \<^typ>\<open>string\<close>, counts as \<^typ>\<open>nat\<close> (every count is a sum of the constants 1 or 2), and a
  dictionary as an association list in insertion order, because \<^verbatim>\<open>max(d, key=d.get)\<close>
  depends on the order in which the keys were inserted. The one builtin among the
  statements of the function that can raise is \<^verbatim>\<open>max\<close> on an empty sequence
  (\<^verbatim>\<open>ValueError\<close>).
\<close>

datatype py_error =
    ValueError
  | SyntaxError nat   \<comment> \<open>with the line of the file\<close>
  | ModuleNotFoundError
  | DatabaseError
  | InterfaceError

type_synonym score_dict = "(string \<times> nat) list"

text \<open>
  A \<^typ>\<open>string\<close> is read as a sequence of code points below 256. On those
  \<^verbatim>\<open>str.lower()\<close> maps the letters A to Z and the capital letters of the range 192 to
  222 (215, the multiplication sign, is no letter) to the code point 32 above, and leaves
  every other code point as it is. A text with a code point above 255 is outside this type.
\<close>

definition lower_char :: "char \<Rightarrow> char" where
  "lower_char c =
     (let n = (of_char c :: nat)
      in if (65 \<le> n \<and> n \<le> 90) \<or> (192 \<le> n \<and> n \<le> 222 \<and> n \<noteq> 215)
         then char_of (n + 32) else c)"

definition lower :: "string \<Rightarrow> string" where
  "lower s = map lower_char s"

text \<open>\<^verbatim>\<open>sep.join(xs)\<close>.\<close>

fun join :: "string \<Rightarrow> string list \<Rightarrow> string" where
  "join sep [] = []"
| "join sep [x] = x"
| "join sep (x # y # ys) = x @ sep @ join sep (y # ys)"

text \<open>\<^verbatim>\<open>s.startswith(p)\<close> and the substring test \<^verbatim>\<open>sub in s\<close>.\<close>

fun startswith :: "string \<Rightarrow> string \<Rightarrow> bool" where
  "startswith s [] = True"
| "startswith [] (c # p) = False"
| "startswith (x # s) (c # p) = (x = c \<and> startswith s p)"

fun contains :: "string \<Rightarrow> string \<Rightarrow> bool" where
  "contains sub [] = (sub = [])"
| "contains sub (x # s) = (startswith (x # s) sub \<or> contains sub s)"

text \<open>
  \<^verbatim>\<open>d[k] = v\<close> on a dictionary: an existing key keeps its position, a new key goes
  last. \<^verbatim>\<open>d.get(k, default)\<close> reads it.
\<close>

fun dict_set :: "score_dict \<Rightarrow> string \<Rightarrow> nat \<Rightarrow> score_dict" where
  "dict_set [] k v = [(k, v)]"
| "dict_set ((k', v') # d) k v = (if k' = k then (k, v) # d else (k', v') # dict_set d k v)"

fun dict_get :: "score_dict \<Rightarrow> string \<Rightarrow> nat \<Rightarrow> nat" where
  "dict_get [] k dflt = dflt"
| "dict_get ((k', v') # d) k dflt = (if k' = k then v' else dict_get d k dflt)"

text \<open>
  \<^verbatim>\<open>max(d, key=d.get)\<close> walks the keys in insertion order and replaces the running best
  only by a key whose value is strictly greater; on an empty dictionary it raises
  \<^verbatim>\<open>ValueError\<close>. The keys of a dictionary are unique, so \<^verbatim>\<open>d.get(k)\<close> of a key met
  in the walk is the value of its item. \<^verbatim>\<open>max(d.values())\<close> is the value of that item.
\<close>

fun max_from :: "string \<times> nat \<Rightarrow> score_dict \<Rightarrow> string \<times> nat" where
  "max_from best [] = best"
| "max_from best (kv # d) = max_from (if snd kv > snd best then kv else best) d"

definition max_item :: "score_dict \<Rightarrow> py_error + (string \<times> nat)" where
  "max_item d = (case d of [] \<Rightarrow> Inl ValueError | kv # rest \<Rightarrow> Inr (max_from kv rest))"

definition max_key :: "score_dict \<Rightarrow> py_error + string" where
  "max_key d = map_sum id fst (max_item d)"

definition max_value :: "score_dict \<Rightarrow> py_error + nat" where
  "max_value d = map_sum id snd (max_item d)"

section \<open>The configuration tables\<close>

text \<open>The class attributes of \<^verbatim>\<open>Config\<close> in \<^verbatim>\<open>src/config.py\<close>, lines 45 to 65.\<close>

type_synonym country_table = "(string \<times> string list) list"

definition COUNTRY_HASHTAGS :: country_table where
  "COUNTRY_HASHTAGS =
     [(''Kenya'', [''#chan2024'', ''#totalenergieschan2024'', ''#harambeestars'']),
      (''Uganda'', [''#totalenergieschan2024'', ''#chan2024'', ''#ugandacranes'']),
      (''Tanzania'', [''#chan2024'', ''#totalenergieschan2024'', ''#taifastars''])]"

definition SHARED_HASHTAGS :: "string list" where
  "SHARED_HASHTAGS =
     [''#pamoja'', ''#chan2024'', ''#totalenergieschan2024'', ''#eastafrica'', ''#eac'']"

definition COUNTRY_KEYWORDS :: country_table where
  "COUNTRY_KEYWORDS =
     [(''Kenya'', [''kenya'', ''harambee'', ''stars'', ''nairobi'', ''teamkenya'', ''ke'',
                   ''harambeefc'', ''harambeestars'']),
      (''Uganda'', [''uganda'', ''cranes'', ''kampala'', ''teamuganda'', ''ug'', ''thecranes'',
                    ''ugandacranes'']),
      (''Tanzania'', [''tanzania'', ''taifa'', ''stars'', ''dar'', ''teamtanzania'', ''tz'',
                      ''taifastars'', ''simba''])]"

definition VENUE_KEYWORDS :: country_table where
  "VENUE_KEYWORDS =
     [(''Kenya'', [''nairobi'', ''kasarani'', ''nyayo'', ''moi'']),
      (''Uganda'', [''kampala'', ''nakivubo'', ''mandela'', ''namboole'']),
      (''Tanzania'', [''dar es salaam'', ''mkapa'', ''uhuru'', ''azam''])]"


section \<open>The classification cascade\<close>

text \<open>
  The statements of \<^verbatim>\<open>TextPreprocessor.categorize_country\<close>, lines 46 to 88 and 117
  to 133, one by one. Lines 89 to 116 of the body are no statements; they and the import
  of line 50 are modelled with the call, in the section after this one.

  The three scoring loops. Each walks the items of a configuration table in order; a
  country enters the dictionary only with a positive score.
  \<^item> lines 53 to 58: \<^verbatim>\<open>hashtag_matches = sum(1 for hashtag in country_hashtags if hashtag in hashtags_lower)\<close>;
  \<^item> lines 69 to 73 and 83 to 87: \<^verbatim>\<open>score = sum(1 for keyword in keywords if keyword in all_content)\<close>;
  \<^item> lines 117 to 120: \<^verbatim>\<open>venue_score = sum(2 for venue in venues if venue in all_content)\<close>,
    added to the score the country already has.
\<close>

definition hashtag_matches :: "string list \<Rightarrow> string list \<Rightarrow> nat" where
  "hashtag_matches hashtags_lower country_hashtags =
     sum_list (map (\<lambda>hashtag. 1) (filter (\<lambda>hashtag. hashtag \<in> set hashtags_lower) country_hashtags))"

definition country_hashtag_scores :: "string list \<Rightarrow> score_dict" where
  "country_hashtag_scores hashtags_lower =
     foldl (\<lambda>scores (country, country_hashtags).
              if hashtag_matches hashtags_lower country_hashtags > 0
              then dict_set scores country (hashtag_matches hashtags_lower country_hashtags)
              else scores)
       [] COUNTRY_HASHTAGS"

definition keyword_score :: "string \<Rightarrow> string list \<Rightarrow> nat" where
  "keyword_score all_content keywords =
     sum_list (map (\<lambda>keyword. 1) (filter (\<lambda>keyword. contains keyword all_content) keywords))"

definition country_keyword_scores :: "string \<Rightarrow> score_dict" where
  "country_keyword_scores all_content =
     foldl (\<lambda>scores (country, keywords).
              if keyword_score all_content keywords > 0
              then dict_set scores country (keyword_score all_content keywords)
              else scores)
       [] COUNTRY_KEYWORDS"

definition venue_score :: "string \<Rightarrow> string list \<Rightarrow> nat" where
  "venue_score all_content venues =
     sum_list (map (\<lambda>venue. 2) (filter (\<lambda>venue. contains venue all_content) venues))"

definition add_venue_scores :: "string \<Rightarrow> score_dict \<Rightarrow> score_dict" where
  "add_venue_scores all_content country_scores =
     foldl (\<lambda>scores (country, venues).
              if venue_score all_content venues > 0
              then dict_set scores country (dict_get scores country 0 + venue_score all_content venues)
              else scores)
       country_scores VENUE_KEYWORDS"

definition country_scores :: "string \<Rightarrow> score_dict" where
  "country_scores all_content = add_venue_scores all_content (country_keyword_scores all_content)"

text \<open>Line 63: \<^verbatim>\<open>sum(1 for hashtag in hashtags_lower if hashtag in Config.SHARED_HASHTAGS)\<close>.\<close>

definition shared_count :: "string list \<Rightarrow> nat" where
  "shared_count hashtags_lower =
     sum_list (map (\<lambda>hashtag. 1) (filter (\<lambda>hashtag. hashtag \<in> set SHARED_HASHTAGS) hashtags_lower))"

text \<open>Line 48: \<^verbatim>\<open>all_content = text_lower + ' ' + ' '.join(hashtags_lower)\<close>.\<close>

definition all_content :: "string \<Rightarrow> string list \<Rightarrow> string" where
  "all_content text hashtags = lower text @ '' '' @ join '' '' (map lower hashtags)"

text \<open>Lines 126 to 128.\<close>

definition chan_indicators :: "string list" where
  "chan_indicators = [''chan'', ''african nations championship'', ''caf'', ''totalenergies'']"

definition has_chan_content :: "string \<Rightarrow> bool" where
  "has_chan_content content = (\<exists>indicator \<in> set chan_indicators. contains indicator content)"

definition has_shared_hashtag :: "string \<Rightarrow> bool" where
  "has_shared_hashtag content = (\<exists>shared \<in> set SHARED_HASHTAGS. contains shared content)"

text \<open>
  The function has six \<^verbatim>\<open>return\<close> statements. The model returns, with the label, the
  statement that produced it, so that the stage that decides can be named.
\<close>

datatype return_site =
    TieBreakKeyword   \<comment> \<open>line 76: the keyword maximum of the shared-hashtag tie-break\<close>
  | TieBreakPamoja    \<comment> \<open>line 78\<close>
  | HashtagMax        \<comment> \<open>line 80: the country-hashtag maximum\<close>
  | ScoreMax          \<comment> \<open>line 123: the keyword and venue maximum\<close>
  | ChanGeneral       \<comment> \<open>line 131\<close>
  | Default           \<comment> \<open>line 133\<close>

definition categorize_country_at :: "string \<Rightarrow> string list \<Rightarrow> py_error + (return_site \<times> string)" where
  "categorize_country_at text hashtags =
     (let hashtags_lower = map lower hashtags;
          content = all_content text hashtags;
          hashtag_scores = country_hashtag_scores hashtags_lower
      in if hashtag_scores \<noteq> [] then
           (case max_value hashtag_scores of
              Inl e \<Rightarrow> Inl e
            | Inr country_specific_count \<Rightarrow>
                if shared_count hashtags_lower > 0
                   \<and> country_specific_count = shared_count hashtags_lower
                then
                  (if country_keyword_scores content \<noteq> []
                   then map_sum id (Pair TieBreakKeyword) (max_key (country_keyword_scores content))
                   else Inr (TieBreakPamoja, ''Pamoja''))
                else map_sum id (Pair HashtagMax) (max_key hashtag_scores))
         else if country_scores content \<noteq> [] then
           map_sum id (Pair ScoreMax) (max_key (country_scores content))
         else if has_chan_content content \<or> has_shared_hashtag content then
           Inr (ChanGeneral, ''CHAN-General'')
         else Inr (Default, ''General''))"

definition categorize_country :: "string \<Rightarrow> string list \<Rightarrow> py_error + string" where
  "categorize_country text hashtags = map_sum id snd (categorize_country_at text hashtags)"

section \<open>The module as it stands, and a call\<close>

text \<open>
  \<open>categorize_country_at\<close> is the function of the statements of lines 46 to 88 and 117
  to 133. Two more things decide what a call of \<^verbatim>\<open>categorize_country\<close> does.

  Between the statements of lines 87 and 117 the body holds lines 89 to 116, the text of
  a README at the indentation of the body: headings that start with \<^verbatim>\<open>#\<close> (comments to
  Python), blank lines, and prose, lists and shell commands, which are no Python
  statements. Each line is recorded below as what it is. A module whose function body
  holds such a line does not compile: importing it raises \<^verbatim>\<open>SyntaxError\<close> at the first
  such line, and no function is defined.
\<close>

datatype source_line = Comment | Blank | Prose

definition lines_89_116 :: "source_line list" where
  "lines_89_116 =
     [Comment, Blank, Prose, Blank,
      Comment, Blank, Prose, Prose, Prose, Prose, Blank,
      Comment, Blank, Prose, Prose, Prose, Prose, Prose, Blank,
      Prose, Prose, Prose, Prose, Blank,
      Comment, Blank, Prose, Blank]"

fun first_prose :: "nat \<Rightarrow> source_line list \<Rightarrow> nat option" where
  "first_prose n [] = None"
| "first_prose n (l # ls) = (if l = Prose then Some n else first_prose (Suc n) ls)"

definition compile_module :: "source_line list \<Rightarrow> py_error + unit" where
  "compile_module body =
     (case first_prose 89 body of Some n \<Rightarrow> Inl (SyntaxError n) | None \<Rightarrow> Inr ())"

text \<open>
  Line 50, \<^verbatim>\<open>from config import Config\<close>, runs inside the function. When the module
  \<^verbatim>\<open>config\<close> is in \<^verbatim>\<open>sys.modules\<close> the statement only binds the name. When it is not,
  the body of \<^verbatim>\<open>src/config.py\<close> runs: \<^verbatim>\<open>load_dotenv()\<close> reads a \<^verbatim>\<open>.env\<close> file and
  \<^verbatim>\<open>os.getenv\<close> the environment. When \<^verbatim>\<open>config\<close> or the package \<^verbatim>\<open>dotenv\<close> it
  imports cannot be found, the statement raises.
\<close>

datatype config_module = Cached | Importable | Unavailable

datatype effect = LoadDotenv

definition import_config :: "config_module \<Rightarrow> py_error + effect list" where
  "import_config config =
     (case config of
        Cached \<Rightarrow> Inr []
      | Importable \<Rightarrow> Inr [LoadDotenv]
      | Unavailable \<Rightarrow> Inl ModuleNotFoundError)"

text \<open>
  A call of \<^verbatim>\<open>categorize_country\<close> through a module whose function body holds the lines
  \<open>body\<close> between lines 88 and 117: the effects it has and what it returns or raises.
  The file as it stands is \<open>call_categorize_country lines_89_116\<close>.
\<close>

definition call_categorize_country ::
  "source_line list \<Rightarrow> config_module \<Rightarrow> string \<Rightarrow> string list
     \<Rightarrow> effect list \<times> (py_error + string)" where
  "call_categorize_country body config text hashtags =
     (case compile_module body of
        Inl e \<Rightarrow> ([], Inl e)
      | Inr u \<Rightarrow>
          (case import_config config of
             Inl e \<Rightarrow> ([], Inl e)
           | Inr effects \<Rightarrow> (effects, categorize_country text hashtags)))"

section \<open>Tie resolution, in the spec's words\<close>

text \<open>
  The spec speaks of ties going to the country that comes first in an order. For a score
  \<open>score\<close> per country and an order of the countries, \<open>first_max\<close> is the first country
  of the order whose score no country of the order exceeds.
\<close>

definition first_max :: "(string \<Rightarrow> nat) \<Rightarrow> string list \<Rightarrow> string option" where
  "first_max score order = find (\<lambda>c. \<forall>c' \<in> set order. score c' \<le> score c) order"

text \<open>\<^verbatim>\<open>table[c]\<close> for a country of the table, and the three totals of a country.\<close>

definition entry :: "country_table \<Rightarrow> string \<Rightarrow> string list" where
  "entry table c = (case map_of table c of Some xs \<Rightarrow> xs | None \<Rightarrow> [])"

definition hashtag_total :: "string list \<Rightarrow> string \<Rightarrow> nat" where
  "hashtag_total hashtags_lower c = hashtag_matches hashtags_lower (entry COUNTRY_HASHTAGS c)"

definition keyword_total :: "string \<Rightarrow> string \<Rightarrow> nat" where
  "keyword_total content c = keyword_score content (entry COUNTRY_KEYWORDS c)"

definition combined_total :: "string \<Rightarrow> string \<Rightarrow> nat" where
  "combined_total content c =
     keyword_total content c + venue_score content (entry VENUE_KEYWORDS c)"

text \<open>
  The order of the three tables, and the order in which the combined dictionary of lines
  83 to 120 receives its keys: the countries with a keyword score first, then the others.
\<close>

definition table_order :: "string list" where
  "table_order = [''Kenya'', ''Uganda'', ''Tanzania'']"

definition insertion_order :: "string \<Rightarrow> string list" where
  "insertion_order content =
     filter (\<lambda>c. 0 < keyword_total content c) table_order
     @ filter (\<lambda>c. keyword_total content c = 0) table_order"

section \<open>Sentiment labelling\<close>

text \<open>
  \<^verbatim>\<open>CHAN2024SentimentAnalyzer.analyze_sentiment\<close> (\<^verbatim>\<open>src/main.py\<close>, lines 51 to 63). The
  lexicon scorer is a library; its compound score is the parameter \<open>polarity_compound\<close>.
  The score is a finite float and the function only compares it with two literals; the
  model reads it as the real number it denotes. No float lies between the decimal
  \<open>0.05\<close> and the float nearest to it, so on floats the comparison with the literal and
  the comparison with the decimal agree.
\<close>

definition analyze_sentiment :: "(string \<Rightarrow> real) \<Rightarrow> string \<Rightarrow> real \<times> string" where
  "analyze_sentiment polarity_compound text =
     (let compound = polarity_compound text;
          label = (if compound \<ge> 0.05 then ''positive''
                   else if compound \<le> - 0.05 then ''negative''
                   else ''neutral'')
      in (compound, label))"

section \<open>The tweets table\<close>

text \<open>
  \<^verbatim>\<open>DatabaseManager.insert_tweet\<close> (\<^verbatim>\<open>src/db.py\<close>, lines 102 to 140). Its argument is
  the dictionary that \<^verbatim>\<open>process_tweet\<close> builds (\<^verbatim>\<open>src/main.py\<close>, lines 87 to 99), always
  with the same eleven keys; the key \<^verbatim>\<open>text\<close> is the field \<open>tweet_text\<close>.
\<close>

record processed_tweet =
  tweet_id :: string
  tweet_text :: string
  author_id :: "string option"
  created_at :: "string option"
  hashtags :: "string list"
  country :: string
  sentiment_score :: real
  sentiment_label :: string
  retweet_count :: int
  like_count :: int
  reply_count :: int

text \<open>A row of the table \<^verbatim>\<open>tweets\<close>: the twelve parameters of the statement.\<close>

record tweet_row = processed_tweet +
  is_shared_content :: bool

text \<open>Lines 116 to 131: the flag and the tuple of parameters.\<close>

definition tweet_params :: "processed_tweet \<Rightarrow> tweet_row" where
  "tweet_params tweet_data =
     (let is_shared = country tweet_data \<in> set [''Pamoja'', ''CHAN-General'']
      in \<lparr>tweet_id = tweet_id tweet_data,
          tweet_text = tweet_text tweet_data,
          author_id = author_id tweet_data,
          created_at = created_at tweet_data,
          hashtags = hashtags tweet_data,
          country = country tweet_data,
          sentiment_score = sentiment_score tweet_data,
          sentiment_label = sentiment_label tweet_data,
          retweet_count = retweet_count tweet_data,
          like_count = like_count tweet_data,
          reply_count = reply_count tweet_data,
          is_shared_content = is_shared\<rparr>)"

text \<open>
  The column \<^verbatim>\<open>sentiment_score\<close> is \<^verbatim>\<open>DECIMAL(3,2)\<close> (line 35): a score is stored
  rounded to two decimals, a half away from zero.
\<close>

definition decimal_3_2 :: "real \<Rightarrow> real" where
  "decimal_3_2 x = sgn x * of_int \<lfloor>\<bar>x\<bar> * 100 + 1 / 2\<rfloor> / 100"

text \<open>
  Modelled from the spec: the persistence store behind \<^verbatim>\<open>cursor.execute\<close>, a database
  engine that is not under \<^verbatim>\<open>src/\<close>. The spec says of it that the assembled record is
  the shape stored, that uniqueness is keyed by tweet id and that duplicate inserts are
  no-ops; the statement of lines 107 to 113 says the same with
  \<^verbatim>\<open>ON CONFLICT (tweet_id) DO NOTHING\<close> on the \<^verbatim>\<open>UNIQUE\<close> column of line 29. The engine
  may refuse a row (a value that does not fit its column), and then the driver raises;
  \<open>admits\<close> says whether the engine takes the row.
\<close>

definition execute_insert ::
  "(tweet_row \<Rightarrow> bool) \<Rightarrow> tweet_row list \<Rightarrow> tweet_row \<Rightarrow> py_error + tweet_row list" where
  "execute_insert admits tweets row =
     (if \<not> admits row then Inl DatabaseError
      else if tweet_id row \<in> tweet_id ` set tweets then Inr tweets
      else Inr (tweets @ [row\<lparr>sentiment_score := decimal_3_2 (sentiment_score row)\<rparr>]))"

text \<open>
  \<^verbatim>\<open>insert_tweet\<close> commits and returns \<^verbatim>\<open>True\<close>; on an exception it logs, rolls back
  and returns \<^verbatim>\<open>False\<close>. On a lost connection \<^verbatim>\<open>self.connection.cursor()\<close> raises and
  so does \<^verbatim>\<open>self.connection.rollback()\<close> in the handler (line 139): that exception
  leaves the function. The result is the table after the call and the value returned.
\<close>

datatype connection = Alive | Lost

definition insert_tweet ::
  "connection \<Rightarrow> (tweet_row \<Rightarrow> bool) \<Rightarrow> tweet_row list \<Rightarrow> processed_tweet
     \<Rightarrow> py_error + (tweet_row list \<times> bool)" where
  "insert_tweet connection admits tweets tweet_data =
     (case connection of
        Lost \<Rightarrow> Inl InterfaceError
      | Alive \<Rightarrow>
          (case execute_insert admits tweets (tweet_params tweet_data) of
             Inr tweets' \<Rightarrow> Inr (tweets', True)
           | Inl e \<Rightarrow> Inr (tweets, False)))"

section \<open>Facts about the helpers\<close>

text \<open>The substring test finds exactly the contiguous occurrences.\<close>

lemma startswith_iff: "startswith s p \<longleftrightarrow> (\<exists>ss. s = p @ ss)"
  by (induction s p rule: startswith.induct) auto

lemma contains_iff: "contains sub s \<longleftrightarrow> (\<exists>ps ss. s = ps @ sub @ ss)"
proof (induction s)
  case Nil
  show ?case by simp
next
  case (Cons x s)
  have "(\<exists>ps ss. x # s = ps @ sub @ ss) \<longleftrightarrow>
        (\<exists>ss. x # s = sub @ ss) \<or> (\<exists>ps ss. s = ps @ sub @ ss)"
    by (auto simp: Cons_eq_append_conv)
  with Cons show ?case by (simp add: startswith_iff)
qed

lemma lower_char_idem: "lower_char (lower_char c) = lower_char c"
proof -
  let ?n = "of_char c :: nat"
  show ?thesis
  proof (cases "(65 \<le> ?n \<and> ?n \<le> 90) \<or> (192 \<le> ?n \<and> ?n \<le> 222 \<and> ?n \<noteq> 215)")
    case True
    then have "(?n + 32) mod 256 = ?n + 32" by auto
    with True show ?thesis
      by (auto simp: lower_char_def Let_def)
  next
    case False
    then show ?thesis
      by (auto simp: lower_char_def Let_def)
  qed
qed

lemma lower_idem: "lower (lower s) = lower s"
  by (simp add: lower_def lower_char_idem)

text \<open>The maximum of a non-empty dictionary is one of its items, so \<^verbatim>\<open>max\<close> does not raise.\<close>

lemma max_from_mem: "max_from best d \<in> insert best (set d)"
  by (induction d arbitrary: best) auto

lemma max_item_nonempty: "d \<noteq> [] \<Longrightarrow> \<exists>kv \<in> set d. max_item d = Inr kv"
  using max_from_mem by (cases d) (auto simp: max_item_def)

lemma max_key_nonempty: "d \<noteq> [] \<Longrightarrow> \<exists>k \<in> fst ` set d. max_key d = Inr k"
  using max_item_nonempty [of d] by (force simp: max_key_def)

lemma max_value_nonempty: "d \<noteq> [] \<Longrightarrow> \<exists>v. max_value d = Inr v"
  using max_item_nonempty [of d] by (auto simp: max_value_def)

text \<open>
  The keys of the configuration tables are distinct, so each scoring loop appends: the
  hashtag and keyword dictionaries list the scoring countries in table order.
\<close>

lemma country_hashtag_scores_eq:
  "country_hashtag_scores hl =
     filter (\<lambda>kv. snd kv > 0) (map (\<lambda>(c, tags). (c, hashtag_matches hl tags)) COUNTRY_HASHTAGS)"
  by (simp add: country_hashtag_scores_def COUNTRY_HASHTAGS_def)

lemma country_keyword_scores_eq:
  "country_keyword_scores content =
     filter (\<lambda>kv. snd kv > 0) (map (\<lambda>(c, kws). (c, keyword_score content kws)) COUNTRY_KEYWORDS)"
  by (simp add: country_keyword_scores_def COUNTRY_KEYWORDS_def)







section \<open>Properties of the cascade\<close>


text \<open>
  The file as it stands does not compile: line 91 is the first line of its body that is
  no statement.
\<close>

lemma shipped_module_does_not_compile: "compile_module lines_89_116 = Inl (SyntaxError 91)"
  by code_simp





text \<open>
  Each of the six labels is the result of the statements on some input: the three
  countries on their own hashtag, Pamoja on the event hashtag alone, CHAN-General on a
  text naming the confederation, General on the empty text.
\<close>

lemma statements_reach_every_label:
  "(\<exists>t h. categorize_country t h = Inr ''Kenya'') \<and>
   (\<exists>t h. categorize_country t h = Inr ''Uganda'') \<and>
   (\<exists>t h. categorize_country t h = Inr ''Tanzania'') \<and>
   (\<exists>t h. categorize_country t h = Inr ''Pamoja'') \<and>
   (\<exists>t h. categorize_country t h = Inr ''CHAN-General'') \<and>
   (\<exists>t h. categorize_country t h = Inr ''General'')"
proof -
  have "categorize_country '''' [''#harambeestars''] = Inr ''Kenya''" by code_simp
  moreover have "categorize_country '''' [''#ugandacranes''] = Inr ''Uganda''" by code_simp
  moreover have "categorize_country '''' [''#taifastars''] = Inr ''Tanzania''" by code_simp
  moreover have "categorize_country '''' [''#chan2024''] = Inr ''Pamoja''" by code_simp
  moreover have "categorize_country ''caf'' [] = Inr ''CHAN-General''" by code_simp
  moreover have "categorize_country '''' [] = Inr ''General''" by code_simp
  ultimately show ?thesis by blast
qed

text \<open>
  C7. On the file as it stands, whatever the text, the hashtags and the state of
  \<^verbatim>\<open>config\<close>, a call raises \<^verbatim>\<open>SyntaxError\<close> for line 91 and returns no label: none of
  the six labels is reached.
\<close>

theorem shipped_call_returns_no_label:
  "snd (call_categorize_country lines_89_116 config t h) = Inl (SyntaxError 91)"
  by (simp add: call_categorize_country_def shipped_module_does_not_compile)





lemma keyword_score_length:
  "keyword_score content kws = length (filter (\<lambda>k. contains k content) kws)"
  unfolding keyword_score_def by (induction kws) auto

lemma keyword_score_pos: "0 < keyword_score content kws \<longleftrightarrow> (\<exists>k \<in> set kws. contains k content)"
  by (simp add: keyword_score_length filter_empty_conv)


lemma tagged_eq: "map_sum id (Pair s) x = Inr (s', c) \<longleftrightarrow> s = s' \<and> x = Inr c"
  by (cases x) auto

lemma map_lower_idem: "map lower (map lower h) = map lower h"
  by (induction h) (simp_all add: lower_idem)

lemma all_content_lower: "all_content t (map lower h) = all_content t h"
  by (simp only: all_content_def map_lower_idem)





text \<open>
  C3. The hashtag list \<open>[#chan2024, #pamoja]\<close>. Both hashtags are shared, so line 63
  counts 2; only \<open>#chan2024\<close> is in the countries' table entries, so every country has 1
  match and the maximum of line 64 is 1. The test of line 67 compares the two numbers,
  fails, and line 80 returns the first country of maximal score: for every text, the
  label is Kenya and not Pamoja.
\<close>

theorem shared_pair_returns_kenya:
  "categorize_country_at t [''#chan2024'', ''#pamoja''] = Inr (HashtagMax, ''Kenya'')"
proof -
  have scores: "country_hashtag_scores (map lower [''#chan2024'', ''#pamoja'']) =
      [(''Kenya'', 1), (''Uganda'', 1), (''Tanzania'', 1)]"
    by code_simp
  have sc: "shared_count (map lower [''#chan2024'', ''#pamoja'']) = 2"
    by code_simp
  show ?thesis
    unfolding categorize_country_at_def Let_def scores sc
    by (simp add: max_key_def max_value_def max_item_def)
qed

text \<open>
  The two last stages of the statements. The content is the lowercased text, a space,
  and the lowercased hashtags joined by spaces. When no country has a hashtag match and
  the dictionary of keyword and venue scores is empty, the statements return
  CHAN-General if the content contains one of \<open>chan\<close>, \<open>african nations championship\<close>,
  \<open>caf\<close>, \<open>totalenergies\<close> or a shared hashtag as a substring, and General otherwise.
\<close>

lemma general_fallback_statements:
  assumes "country_hashtag_scores (map lower h) = []"
    and "country_scores (lower t @ '' '' @ join '' '' (map lower h)) = []"
  shows "categorize_country t h =
     Inr (if (\<exists>indicator \<in> set [''chan'', ''african nations championship'', ''caf'',
                                  ''totalenergies''].
                contains indicator (lower t @ '' '' @ join '' '' (map lower h)))
             \<or> (\<exists>shared \<in> set SHARED_HASHTAGS.
                   contains shared (lower t @ '' '' @ join '' '' (map lower h)))
          then ''CHAN-General'' else ''General'')"
  using assms
  by (simp add: categorize_country_def categorize_country_at_def Let_def has_chan_content_def
      chan_indicators_def has_shared_hashtag_def all_content_def)

text \<open>
  A text in capitals that names the confederation, a hashtag in capitals that holds a
  shared hashtag, and a text and a hashtag that hold neither.
\<close>

lemma general_fallback_examples:
  "categorize_country ''CAF Confirms TotalEnergies Sponsorship'' [] = Inr ''CHAN-General''
   \<and> categorize_country ''Hello'' [''#EACGames''] = Inr ''CHAN-General''
   \<and> categorize_country ''Good Morning Everyone'' [''#Football''] = Inr ''General''"
proof -
  have h1: "country_hashtag_scores (map lower []) = []"
    and h2: "country_hashtag_scores (map lower [''#EACGames'']) = []"
    and h3: "country_hashtag_scores (map lower [''#Football'']) = []"
    by code_simp+
  have s1: "country_scores (lower ''CAF Confirms TotalEnergies Sponsorship'' @ '' ''
              @ join '' '' (map lower [])) = []"
    and s2: "country_scores (lower ''Hello'' @ '' '' @ join '' '' (map lower [''#EACGames''])) = []"
    and s3: "country_scores (lower ''Good Morning Everyone'' @ '' ''
              @ join '' '' (map lower [''#Football''])) = []"
    by code_simp+
  have c1: "contains ''caf'' (lower ''CAF Confirms TotalEnergies Sponsorship'' @ '' ''
              @ join '' '' (map lower []))"
    and c2: "contains ''#eac'' (lower ''Hello'' @ '' '' @ join '' '' (map lower [''#EACGames'']))"
    and m2: "''#eac'' \<in> set SHARED_HASHTAGS"
    by code_simp+
  have c3: "\<not> ((\<exists>indicator \<in> set [''chan'', ''african nations championship'', ''caf'',
                                     ''totalenergies''].
                contains indicator (lower ''Good Morning Everyone'' @ '' ''
                   @ join '' '' (map lower [''#Football''])))
             \<or> (\<exists>shared \<in> set SHARED_HASHTAGS.
                   contains shared (lower ''Good Morning Everyone'' @ '' ''
                     @ join '' '' (map lower [''#Football'']))))"
    by code_simp
  have r1: "categorize_country ''CAF Confirms TotalEnergies Sponsorship'' [] = Inr ''CHAN-General''"
    using general_fallback_statements [OF h1 s1] c1 by auto
  have r2: "categorize_country ''Hello'' [''#EACGames''] = Inr ''CHAN-General''"
    using general_fallback_statements [OF h2 s2] c2 m2 by auto
  have r3: "categorize_country ''Good Morning Everyone'' [''#Football''] = Inr ''General''"
    using general_fallback_statements [OF h3 s3] c3 by simp
  from r1 r2 r3 show ?thesis by simp
qed

text \<open>
  C5. On the file as it stands the two examples of the spec do not reach the last
  stages: each call raises \<^verbatim>\<open>SyntaxError\<close> for line 91, where the spec has
  CHAN-General and General.
\<close>

theorem shipped_call_no_fallback:
  "snd (call_categorize_country lines_89_116 Cached
          ''caf confirms totalenergies sponsorship'' []) = Inl (SyntaxError 91)
   \<and> snd (call_categorize_country lines_89_116 Cached ''good morning everyone'' [])
       = Inl (SyntaxError 91)"
  by code_simp

text \<open>
  C6. The mixed-case hashtag of the Uganda team gives the same label as its lowercase
  form: line 47 lowercases every hashtag before any comparison.
\<close>

theorem uganda_cranes_mixed_case:
  "categorize_country '''' [''#UgandaCranes''] = Inr ''Uganda'' \<and>
   categorize_country '''' [''#ugandacranes''] = Inr ''Uganda''"
  by code_simp

text \<open>
  C6. The function lowercases its hashtag argument itself: for every text and
  every hashtag list, the result on the lowercased list is the result on the list.
\<close>

theorem hashtags_renormalized:
  "categorize_country t (map lower h) = categorize_country t h"
  by (simp only: categorize_country_def categorize_country_at_def all_content_lower
      map_lower_idem)

section \<open>The order of the score dictionaries\<close>

text \<open>
  Each of the three dictionaries lists its countries with their totals along an order:
  the hashtag and the tie-break dictionaries along the table order, the combined
  dictionary along \<open>insertion_order\<close>, since the venue loop of lines 117 to 120 updates
  a key that is there in place and appends a key that is not.
\<close>

lemma first_max3:
  "max_key (map (\<lambda>c. (c, f c)) (filter (\<lambda>c. 0 < f c) [a, b, c])) = Inr x
     \<Longrightarrow> first_max f [a, b, c] = Some x"
  by (auto simp: first_max_def max_key_def max_item_def split: if_splits)

lemma country_hashtag_scores_order:
  "country_hashtag_scores hl =
     map (\<lambda>c. (c, hashtag_total hl c)) (filter (\<lambda>c. 0 < hashtag_total hl c) table_order)"
  by (simp add: country_hashtag_scores_eq COUNTRY_HASHTAGS_def hashtag_total_def entry_def
      table_order_def)

lemma country_keyword_scores_order:
  "country_keyword_scores content =
     map (\<lambda>c. (c, keyword_total content c))
       (filter (\<lambda>c. 0 < keyword_total content c) table_order)"
  by (simp add: country_keyword_scores_eq COUNTRY_KEYWORDS_def keyword_total_def entry_def
      table_order_def)

lemma add_venue_scores_unfold:
  "add_venue_scores content d =
     foldl (\<lambda>scores (country, vs).
              if 0 < vs then dict_set scores country (dict_get scores country 0 + vs) else scores)
       d (map (\<lambda>c. (c, venue_score content (entry VENUE_KEYWORDS c))) table_order)"
  by (simp add: add_venue_scores_def VENUE_KEYWORDS_def entry_def table_order_def)

lemma combined_fold:
  fixes k v :: "string \<Rightarrow> nat"
  shows "foldl (\<lambda>scores (country, vs).
              if 0 < vs then dict_set scores country (dict_get scores country 0 + vs) else scores)
           (map (\<lambda>c. (c, k c)) (filter (\<lambda>c. 0 < k c) table_order))
           (map (\<lambda>c. (c, v c)) table_order)
         = map (\<lambda>c. (c, k c + v c))
             (filter (\<lambda>c. 0 < k c + v c)
                (filter (\<lambda>c. 0 < k c) table_order @ filter (\<lambda>c. k c = 0) table_order))"
  unfolding table_order_def
  by (cases "0 < k ''Kenya''"; cases "0 < k ''Uganda''"; cases "0 < k ''Tanzania''";
      cases "0 < v ''Kenya''"; cases "0 < v ''Uganda''"; cases "0 < v ''Tanzania''"; simp)

lemma country_scores_order:
  "country_scores content =
     map (\<lambda>c. (c, combined_total content c))
       (filter (\<lambda>c. 0 < combined_total content c) (insertion_order content))"
  unfolding country_scores_def country_keyword_scores_order add_venue_scores_unfold combined_fold
    insertion_order_def combined_total_def ..

lemma insertion_order3: "\<exists>a b c. insertion_order content = [a, b, c]"
  by (simp add: insertion_order_def table_order_def)

text \<open>
  C10. A text with two keyword hits for Uganda and one venue term of Kenya: both
  countries reach the score 2, Uganda entered the dictionary in the keyword loop and
  Kenya only in the venue loop, and the maximum of line 123 is Uganda, not Kenya.
\<close>

theorem venue_only_country_loses_tie:
  "country_scores (all_content ''uganda kasarani'' []) = [(''Uganda'', 2), (''Kenya'', 2)] \<and>
   categorize_country_at ''uganda kasarani'' [] = Inr (ScoreMax, ''Uganda'')"
  by code_simp

text \<open>
  C10. Every maximum goes to the country that entered its dictionary first
  among those of maximal score. For the country-hashtag maximum (line 80) and the
  tie-break maximum (line 76) that order is the table order Kenya, Uganda, Tanzania; for
  the combined maximum (line 123) it is \<open>insertion_order\<close>: the countries with a keyword
  score in table order, then the others in table order.
\<close>

theorem tie_goes_to_first_inserted:
  assumes "categorize_country_at t h = Inr (site, c)"
  shows "(site = HashtagMax \<longrightarrow>
            first_max (hashtag_total (map lower h)) table_order = Some c)
       \<and> (site = TieBreakKeyword \<longrightarrow>
            first_max (keyword_total (all_content t h)) table_order = Some c)
       \<and> (site = ScoreMax \<longrightarrow>
            first_max (combined_total (all_content t h)) (insertion_order (all_content t h))
              = Some c)"
proof (intro conjI impI)
  assume "site = HashtagMax"
  with assms have "max_key (country_hashtag_scores (map lower h)) = Inr c"
    by (auto simp: categorize_country_at_def Let_def tagged_eq split: if_splits sum.splits)
  then show "first_max (hashtag_total (map lower h)) table_order = Some c"
    unfolding country_hashtag_scores_order table_order_def by (rule first_max3)
next
  assume "site = TieBreakKeyword"
  with assms have "max_key (country_keyword_scores (all_content t h)) = Inr c"
    by (auto simp: categorize_country_at_def Let_def tagged_eq split: if_splits sum.splits)
  then show "first_max (keyword_total (all_content t h)) table_order = Some c"
    unfolding country_keyword_scores_order table_order_def by (rule first_max3)
next
  assume "site = ScoreMax"
  with assms have mk: "max_key (country_scores (all_content t h)) = Inr c"
    by (auto simp: categorize_country_at_def Let_def tagged_eq split: if_splits sum.splits)
  obtain x y z where o: "insertion_order (all_content t h) = [x, y, z]"
    using insertion_order3 by blast
  from mk show "first_max (combined_total (all_content t h))
      (insertion_order (all_content t h)) = Some c"
    unfolding country_scores_order o by (rule first_max3)
qed

text \<open>
  One tie at each of the three maxima: Kenya and Uganda with two hashtags each, Kenya
  and Tanzania with the keyword \<open>stars\<close>, Uganda and Kenya with the score 2.
\<close>

theorem tie_goes_to_first_inserted_witness:
  "categorize_country_at '''' [''#chan2024'', ''#harambeestars'', ''#ugandacranes'']
     = Inr (HashtagMax, ''Kenya'')
   \<and> first_max (hashtag_total (map lower [''#chan2024'', ''#harambeestars'', ''#ugandacranes'']))
        table_order = Some ''Kenya''
   \<and> categorize_country_at ''stars'' [''#chan2024''] = Inr (TieBreakKeyword, ''Kenya'')
   \<and> first_max (keyword_total (all_content ''stars'' [''#chan2024''])) table_order
        = Some ''Kenya''
   \<and> categorize_country_at ''uganda kasarani'' [] = Inr (ScoreMax, ''Uganda'')
   \<and> first_max (combined_total (all_content ''uganda kasarani'' []))
        (insertion_order (all_content ''uganda kasarani'' [])) = Some ''Uganda''"
proof -
  have a: "categorize_country_at '''' [''#chan2024'', ''#harambeestars'', ''#ugandacranes'']
      = Inr (HashtagMax, ''Kenya'')"
    by code_simp
  have b: "categorize_country_at ''stars'' [''#chan2024''] = Inr (TieBreakKeyword, ''Kenya'')"
    by code_simp
  have c: "categorize_country_at ''uganda kasarani'' [] = Inr (ScoreMax, ''Uganda'')"
    by code_simp
  show ?thesis
    using a b c tie_goes_to_first_inserted [OF a] tie_goes_to_first_inserted [OF b]
      tie_goes_to_first_inserted [OF c]
    by simp
qed

section \<open>The shared-hashtag tie-break\<close>

lemma max_value_Inr_nonempty: "max_value d = Inr v \<Longrightarrow> d \<noteq> []"
  by (auto simp: max_value_def max_item_def)

lemma keyword_total_count:
  "keyword_total (all_content t h) c =
     length (filter (\<lambda>k. contains k (lower t @ '' '' @ join '' '' (map lower h)))
               (entry COUNTRY_KEYWORDS c))"
  by (simp add: keyword_total_def keyword_score_length all_content_def)

text \<open>
  C4. On the text \<open>excited for kasarani showdown\<close> with the hashtag list
  \<open>[#chan2024, #pamoja]\<close>, the label is not returned by the keyword maximum of the
  tie-break (line 76).
\<close>

theorem kasarani_not_tie_break:
  "categorize_country_at ''excited for kasarani showdown'' [''#chan2024'', ''#pamoja'']
     \<noteq> Inr (TieBreakKeyword, ''Kenya'')"
  by code_simp

text \<open>
  C4. What the tie-break does. Let the content be the lowercased text, a space and the
  lowercased hashtags joined by spaces, and let the keyword count of a country be the
  number of entries of its \<open>COUNTRY_KEYWORDS\<close> list that the content contains; no venue
  term enters it. Whenever the statements return,
  \<^item> a return of line 76 gives the first country, in table order, of maximal keyword
    count, and that count is positive;
  \<^item> a return of line 78 gives Pamoja, and the keyword count of every country is 0;
  \<^item> the return is one of these two exactly when the test of line 67 holds.
\<close>

theorem tie_break_counts_keywords_only:
  assumes "categorize_country_at t h = Inr (site, c)"
  shows
    "let content = lower t @ '' '' @ join '' '' (map lower h);
         keyword_count = (\<lambda>c. length (filter (\<lambda>k. contains k content)
                                         (entry COUNTRY_KEYWORDS c)))
     in (site = TieBreakKeyword \<longrightarrow>
           first_max keyword_count table_order = Some c \<and> 0 < keyword_count c)
      \<and> (site = TieBreakPamoja \<longrightarrow>
           c = ''Pamoja'' \<and> (\<forall>c' \<in> set table_order. keyword_count c' = 0))
      \<and> ((site = TieBreakKeyword \<or> site = TieBreakPamoja) \<longleftrightarrow>
           0 < shared_count (map lower h)
           \<and> max_value (country_hashtag_scores (map lower h))
               = Inr (shared_count (map lower h)))"
proof -
  let ?content = "all_content t h"
  let ?kw = "keyword_total ?content"
  let ?d = "country_keyword_scores ?content"
  have a: "first_max ?kw table_order = Some c \<and> 0 < ?kw c" if s: "site = TieBreakKeyword"
  proof -
    from assms s have ne: "?d \<noteq> []" and mk: "max_key ?d = Inr c"
      by (auto simp: categorize_country_at_def Let_def tagged_eq split: if_splits sum.splits)
    from mk have "first_max ?kw table_order = Some c"
      unfolding country_keyword_scores_order table_order_def by (rule first_max3)
    moreover from max_key_nonempty [OF ne] mk have "c \<in> fst ` set ?d" by auto
    then have "0 < ?kw c"
      unfolding country_keyword_scores_order by auto
    ultimately show ?thesis by simp
  qed
  have b: "c = ''Pamoja'' \<and> (\<forall>c' \<in> set table_order. ?kw c' = 0)" if s: "site = TieBreakPamoja"
  proof -
    from assms s have e: "?d = []" and c: "c = ''Pamoja''"
      by (auto simp: categorize_country_at_def Let_def tagged_eq split: if_splits sum.splits)
    from e have "filter (\<lambda>c. 0 < ?kw c) table_order = []"
      unfolding country_keyword_scores_order by simp
    then have "\<forall>c' \<in> set table_order. ?kw c' = 0"
      by (simp add: filter_empty_conv)
    with c show ?thesis by simp
  qed
  have c: "(site = TieBreakKeyword \<or> site = TieBreakPamoja) \<longleftrightarrow>
           0 < shared_count (map lower h)
           \<and> max_value (country_hashtag_scores (map lower h))
               = Inr (shared_count (map lower h))"
  proof (cases "country_hashtag_scores (map lower h) = []")
    case True
    with assms show ?thesis
      by (auto simp: categorize_country_at_def Let_def tagged_eq max_value_def max_item_def
          split: if_splits)
  next
    case False
    then obtain v where v: "max_value (country_hashtag_scores (map lower h)) = Inr v"
      using max_value_nonempty by blast
    with assms False show ?thesis
      by (auto simp: categorize_country_at_def Let_def tagged_eq split: if_splits)
  qed
  from a b c show ?thesis unfolding Let_def keyword_total_count [symmetric] by blast
qed

text \<open>
  Two inputs on which the tie-break decides. With the keyword \<open>stars\<close> of Kenya and
  Tanzania and the venue term \<open>mkapa\<close> of Tanzania, the two countries tie on keywords
  and line 76 returns Kenya. With the venue term \<open>kasarani\<close> and no keyword, line 78
  returns Pamoja.
\<close>

theorem tie_break_counts_keywords_only_witness:
  "categorize_country_at ''stars mkapa'' [''#chan2024''] = Inr (TieBreakKeyword, ''Kenya'')
   \<and> first_max (\<lambda>c. length (filter (\<lambda>k. contains k
                      (lower ''stars mkapa'' @ '' '' @ join '' '' (map lower [''#chan2024''])))
                    (entry COUNTRY_KEYWORDS c))) table_order = Some ''Kenya''
   \<and> categorize_country_at ''excited for kasarani showdown'' [''#chan2024'']
       = Inr (TieBreakPamoja, ''Pamoja'')
   \<and> length (filter (\<lambda>k. contains k
                (lower ''excited for kasarani showdown'' @ '' ''
                   @ join '' '' (map lower [''#chan2024''])))
              (entry COUNTRY_KEYWORDS ''Kenya'')) = 0"
proof -
  have a: "categorize_country_at ''stars mkapa'' [''#chan2024''] = Inr (TieBreakKeyword, ''Kenya'')"
    by code_simp
  have b: "categorize_country_at ''excited for kasarani showdown'' [''#chan2024'']
       = Inr (TieBreakPamoja, ''Pamoja'')"
    by code_simp
  have k: "''Kenya'' \<in> set table_order" by (simp add: table_order_def)
  from tie_break_counts_keywords_only [OF a]
  have "first_max (\<lambda>c. length (filter (\<lambda>k. contains k
                      (lower ''stars mkapa'' @ '' '' @ join '' '' (map lower [''#chan2024''])))
                    (entry COUNTRY_KEYWORDS c))) table_order = Some ''Kenya''"
    unfolding Let_def by blast
  moreover from tie_break_counts_keywords_only [OF b] k
  have "length (filter (\<lambda>k. contains k
                (lower ''excited for kasarani showdown'' @ '' ''
                   @ join '' '' (map lower [''#chan2024''])))
              (entry COUNTRY_KEYWORDS ''Kenya'')) = 0"
    unfolding Let_def by blast
  ultimately show ?thesis using a b by simp
qed

section \<open>Properties of the collaborators\<close>

text \<open>
  C8. The label of \<open>analyze_sentiment\<close> is one of positive, negative and neutral; it is
  positive exactly when the compound score is at least 0.05, negative exactly when it
  is at most -0.05, and neutral exactly when it is neither. The score is returned as
  the scorer gave it.
\<close>

theorem sentiment_thresholds:
  "fst (analyze_sentiment polarity_compound t) = polarity_compound t
   \<and> snd (analyze_sentiment polarity_compound t) \<in> {''positive'', ''negative'', ''neutral''}
   \<and> (snd (analyze_sentiment polarity_compound t) = ''positive''
        \<longleftrightarrow> polarity_compound t \<ge> 0.05)
   \<and> (snd (analyze_sentiment polarity_compound t) = ''negative''
        \<longleftrightarrow> polarity_compound t \<le> - 0.05)
   \<and> (snd (analyze_sentiment polarity_compound t) = ''neutral''
        \<longleftrightarrow> \<not> polarity_compound t \<ge> 0.05 \<and> \<not> polarity_compound t \<le> - 0.05)"
  by (simp add: analyze_sentiment_def Let_def)

text \<open>
  C9. With the connection alive and a record the engine takes: if the tweet id of the
  record is in the table, \<open>insert_tweet\<close> leaves the table as it is and returns
  \<^verbatim>\<open>True\<close>; if it is not, the table gains one row, which holds every field of the
  record (the score as the column stores it) and the flag \<open>is_shared_content\<close>, true
  exactly when the label is Pamoja or CHAN-General, and the call returns \<^verbatim>\<open>True\<close>.
  Whatever the connection and the engine, a table without two rows of the same tweet
  id stays so when the call returns.
\<close>

theorem insert_tweet_unique:
  "(admits (tweet_params td) \<and> tweet_id td \<in> tweet_id ` set tweets \<longrightarrow>
      insert_tweet Alive admits tweets td = Inr (tweets, True))
   \<and> (admits (tweet_params td) \<and> tweet_id td \<notin> tweet_id ` set tweets \<longrightarrow>
      insert_tweet Alive admits tweets td =
        Inr (tweets @
               [\<lparr>tweet_id = tweet_id td,
                 tweet_text = tweet_text td,
                 author_id = author_id td,
                 created_at = created_at td,
                 hashtags = hashtags td,
                 country = country td,
                 sentiment_score = decimal_3_2 (sentiment_score td),
                 sentiment_label = sentiment_label td,
                 retweet_count = retweet_count td,
                 like_count = like_count td,
                 reply_count = reply_count td,
                 is_shared_content =
                   (country td = ''Pamoja'' \<or> country td = ''CHAN-General'')\<rparr>],
             True))
   \<and> (insert_tweet connection admits' tweets td = Inr (tweets', ok)
        \<and> distinct (map tweet_id tweets) \<longrightarrow> distinct (map tweet_id tweets'))"
  by (cases connection)
    (auto simp: insert_tweet_def execute_insert_def tweet_params_def Let_def split: if_splits)

text \<open>
  A table with one row, an engine that checks the widths of the columns \<^verbatim>\<open>tweet_id\<close>
  and \<^verbatim>\<open>country\<close> (lines 29 and 34), a record with the tweet id of the row and a
  record with a fresh one, whose score 0.456 is stored as 0.46.
\<close>

theorem insert_tweet_unique_witness:
  "let admits = (\<lambda>row :: tweet_row. length (tweet_id row) \<le> 50 \<and> length (country row) \<le> 20);
       td = (\<lambda>i label. \<lparr>tweet_id = i, tweet_text = ''Pamoja! #CHAN2024'', author_id = Some ''42'',
               created_at = None, hashtags = [''#chan2024''], country = label,
               sentiment_score = 0.456, sentiment_label = ''positive'', retweet_count = 3,
               like_count = 5, reply_count = 1\<rparr>);
       tweets = [tweet_params (td ''1'' ''Kenya'')]
   in insert_tweet Alive admits tweets (td ''1'' ''Pamoja'') = Inr (tweets, True)
    \<and> insert_tweet Alive admits tweets (td ''2'' ''Pamoja'')
        = Inr (tweets @
                 [\<lparr>tweet_id = ''2'', tweet_text = ''Pamoja! #CHAN2024'', author_id = Some ''42'',
                   created_at = None, hashtags = [''#chan2024''], country = ''Pamoja'',
                   sentiment_score = 0.46, sentiment_label = ''positive'', retweet_count = 3,
                   like_count = 5, reply_count = 1, is_shared_content = True\<rparr>], True)
    \<and> \<not> is_shared_content (tweet_params (td ''1'' ''Kenya''))"
proof -
  define admits where
    "admits = (\<lambda>row :: tweet_row. length (tweet_id row) \<le> 50 \<and> length (country row) \<le> 20)"
  define td where
    "td = (\<lambda>i label. \<lparr>tweet_id = i, tweet_text = ''Pamoja! #CHAN2024'', author_id = Some ''42'',
               created_at = None :: string option, hashtags = [''#chan2024''], country = label,
               sentiment_score = 0.456 :: real, sentiment_label = ''positive'',
               retweet_count = 3 :: int, like_count = 5 :: int, reply_count = 1 :: int\<rparr>)"
  define tweets where "tweets = [tweet_params (td ''1'' ''Kenya'')]"
  have a1: "admits (tweet_params (td ''1'' ''Pamoja''))"
    and a2: "admits (tweet_params (td ''2'' ''Pamoja''))"
    by (simp_all add: admits_def td_def tweet_params_def)
  have dup: "tweet_id (td ''1'' ''Pamoja'') \<in> tweet_id ` set tweets"
    and fresh: "tweet_id (td ''2'' ''Pamoja'') \<notin> tweet_id ` set tweets"
    by (simp_all add: tweets_def td_def tweet_params_def)
  have round: "decimal_3_2 0.456 = 0.46"
    by (simp add: decimal_3_2_def)
  have r1: "insert_tweet Alive admits tweets (td ''1'' ''Pamoja'') = Inr (tweets, True)"
    using insert_tweet_unique [of admits "td ''1'' ''Pamoja''" tweets] a1 dup by blast
  have r2: "insert_tweet Alive admits tweets (td ''2'' ''Pamoja'')
        = Inr (tweets @
                 [\<lparr>tweet_id = ''2'', tweet_text = ''Pamoja! #CHAN2024'', author_id = Some ''42'',
                   created_at = None, hashtags = [''#chan2024''], country = ''Pamoja'',
                   sentiment_score = 0.46, sentiment_label = ''positive'', retweet_count = 3,
                   like_count = 5, reply_count = 1, is_shared_content = True\<rparr>], True)"
    using insert_tweet_unique [of admits "td ''2'' ''Pamoja''" tweets] a2 fresh round
    by (simp add: td_def)
  have r3: "\<not> is_shared_content (tweet_params (td ''1'' ''Kenya''))"
    by (simp add: td_def tweet_params_def)
  show ?thesis
    using r1 r2 r3 unfolding admits_def td_def tweets_def Let_def by simp
qed

end
